theory Spec2Isabelle
  imports Complex_Main "HOL-Library.Multiset" "HOL-Library.Product_Lexorder"
begin

section \<open>Data model\<close>

text \<open>
  The documents of the two collections the matching service works on, as the Mongoose
  schemas declare them (\<^verbatim>\<open>partnerSchema\<close>, \<^verbatim>\<open>inquirySchema\<close>). A JavaScript Number is
  modelled as an exact rational (no NaN, no infinities, no rounding); an ObjectId and a
  Date are natural numbers. Strings are ASCII character lists. Fields keep the names
  of the schemas, except \<^verbatim>\<open>min\<close> and \<^verbatim>\<open>max\<close> (\<open>min_val\<close>, \<open>max_val\<close>), a partner's
  \<^verbatim>\<open>_id\<close> (\<open>partner_id\<close>), \<^verbatim>\<open>verification.status\<close> (\<open>verif_status\<close>),
  \<^verbatim>\<open>rating.count\<close> (\<open>rating_count\<close>) and the inquiry's \<^verbatim>\<open>location\<close>
  (\<open>inquiryLocation\<close>) and an assignment entry's \<^verbatim>\<open>_id\<close> (\<open>assignment_id\<close>).
  Fields that the matching service neither reads nor sets itself (venue, requirements,
  reference images, priority, source, the documents' timestamps) are left out.
\<close>

datatype category =
  Wedding | Maternity | Portrait | Event | Commercial | Fashion | Product | RealEstate

datatype verification_status = Pending | Verified | Rejected

datatype inquiry_status = New | Assigned | Responded | Booked | Closed | Cancelled

text \<open>\<^verbatim>\<open>{ min, max }\<close>, the shape of both \<^verbatim>\<open>priceRange\<close> and \<^verbatim>\<open>budget\<close>.\<close>

record price_range =
  min_val :: rat
  max_val :: rat

record place =
  city :: string
  state :: string

record business_info =
  categories :: "category list"
  experience :: rat
  priceRange :: price_range

record verification_info =
  verif_status :: verification_status

record rating_info =
  average :: rat
  rating_count :: nat

record partner =
  partner_id :: nat
  userId :: nat
  businessInfo :: business_info
  location :: place
  verification :: verification_info
  rating :: rating_info
  isActive :: bool
  isFeatured :: bool
  totalBookings :: rat
  createdAt :: nat

record event_details =
  eventDate :: nat
  eventTime :: string
  duration :: rat

record response_info =
  message :: "string option"
  quotation :: "rat option"
  respondedAt :: "nat option"
  isAccepted :: bool

record assignment =
  assignment_id :: nat
  partnerId :: nat
  assignedAt :: "nat option"
  response :: "response_info option"

record inquiry =
  clientId :: nat
  category :: category
  eventDetails :: event_details
  budget :: "price_range option"
  inquiryLocation :: place
  status :: inquiry_status
  assignedPartners :: "assignment list"
  selectedPartner :: "nat option"

section \<open>Scoring\<close>

text \<open>\<^verbatim>\<open>String.prototype.toLowerCase\<close> on ASCII strings: \<^verbatim>\<open>A\<close>..\<^verbatim>\<open>Z\<close> move to \<^verbatim>\<open>a\<close>..\<^verbatim>\<open>z\<close>.\<close>

definition toLowerCaseChar :: "char \<Rightarrow> char" where
  "toLowerCaseChar c =
     (let n = (of_char c :: nat) in if 65 \<le> n \<and> n \<le> 90 then char_of (n + 32) else c)"

definition toLowerCase :: "string \<Rightarrow> string" where
  "toLowerCase s = map toLowerCaseChar s"

text \<open>
  \<^verbatim>\<open>MatchingService.calculateMatchScore(partner, inquiry)\<close>: the running \<^verbatim>\<open>score\<close>
  variable is rebound statement by statement, in the order of the source.
\<close>

definition calculateMatchScore :: "partner \<Rightarrow> inquiry \<Rightarrow> rat" where
  "calculateMatchScore partner inquiry =
     (let score = 0;
          score = score + 10;
          score = (if isFeatured partner then score + 20 else score);
          score = (if average (rating partner) > 0
                   then score + average (rating partner) * 5 else score);
          score = score + min (experience (businessInfo partner) * 2) 20;
          score = (if toLowerCase (city (location partner))
                      = toLowerCase (city (inquiryLocation inquiry))
                   then score + 15 else score);
          score = (case budget inquiry of
                     None \<Rightarrow> score
                   | Some b \<Rightarrow>
                       (let partnerMin = min_val (priceRange (businessInfo partner));
                            partnerMax = max_val (priceRange (businessInfo partner));
                            inquiryMin = min_val b;
                            inquiryMax = max_val b
                        in if partnerMin \<le> inquiryMax \<and> partnerMax \<ge> inquiryMin
                           then (let score = score + 10
                                 in if partnerMin \<ge> inquiryMin \<and> partnerMax \<le> inquiryMax
                                    then score + 5 else score)
                           else score));
          score = (if totalBookings partner > 0
                   then score + min (totalBookings partner) 10 else score);
          score = (if length (categories (businessInfo partner)) \<le> 3
                   then score + 5 else score)
      in score)"

section \<open>Example documents\<close>

text \<open>The inquiry and partner A of the worked example: a wedding in Mumbai, budget 25000 to 75000.\<close>

definition exampleInquiry :: inquiry where
  "exampleInquiry =
     \<lparr>clientId = 1, category = Wedding,
      eventDetails = \<lparr>eventDate = 1000, eventTime = ''18:00'', duration = 4\<rparr>,
      budget = Some \<lparr>min_val = 25000, max_val = 75000\<rparr>,
      inquiryLocation = \<lparr>city = ''Mumbai'', state = ''Maharashtra''\<rparr>,
      status = New, assignedPartners = [], selectedPartner = None\<rparr>"

definition partnerA :: partner where
  "partnerA =
     \<lparr>partner_id = 101, userId = 11,
      businessInfo = \<lparr>categories = [Wedding], experience = 5,
                      priceRange = \<lparr>min_val = 20000, max_val = 60000\<rparr>\<rparr>,
      location = \<lparr>city = ''Mumbai'', state = ''Maharashtra''\<rparr>,
      verification = \<lparr>verif_status = Verified\<rparr>,
      rating = \<lparr>average = 9 / 2, rating_count = 8\<rparr>,
      isActive = True, isFeatured = True, totalBookings = 12, createdAt = 50\<rparr>"


definition partnerDelhi :: partner where
  "partnerDelhi =
     \<lparr>partner_id = 102, userId = 12,
      businessInfo = \<lparr>categories = [Wedding, Portrait], experience = 8,
                      priceRange = \<lparr>min_val = 30000, max_val = 70000\<rparr>\<rparr>,
      location = \<lparr>city = ''Delhi'', state = ''Delhi''\<rparr>,
      verification = \<lparr>verif_status = Verified\<rparr>,
      rating = \<lparr>average = 5, rating_count = 20\<rparr>,
      isActive = True, isFeatured = True, totalBookings = 30, createdAt = 40\<rparr>"

definition partnerNavi :: partner where
  "partnerNavi =
     \<lparr>partner_id = 103, userId = 13,
      businessInfo = \<lparr>categories = [Wedding, Event], experience = 3,
                      priceRange = \<lparr>min_val = 30000, max_val = 50000\<rparr>\<rparr>,
      location = \<lparr>city = ''Navi Mumbai'', state = ''Maharashtra''\<rparr>,
      verification = \<lparr>verif_status = Verified\<rparr>,
      rating = \<lparr>average = 4, rating_count = 5\<rparr>,
      isActive = True, isFeatured = False, totalBookings = 4, createdAt = 60\<rparr>"

definition partnerPremium :: partner where
  "partnerPremium =
     \<lparr>partner_id = 104, userId = 14,
      businessInfo = \<lparr>categories = [Wedding, Fashion], experience = 12,
                      priceRange = \<lparr>min_val = 100000, max_val = 200000\<rparr>\<rparr>,
      location = \<lparr>city = ''Mumbai'', state = ''Maharashtra''\<rparr>,
      verification = \<lparr>verif_status = Verified\<rparr>,
      rating = \<lparr>average = 4, rating_count = 9\<rparr>,
      isActive = True, isFeatured = False, totalBookings = 7, createdAt = 30\<rparr>"

definition partnerTop :: partner where
  "partnerTop =
     \<lparr>partner_id = 105, userId = 15,
      businessInfo = \<lparr>categories = [Wedding], experience = 10,
                      priceRange = \<lparr>min_val = 30000, max_val = 60000\<rparr>\<rparr>,
      location = \<lparr>city = ''mumbai'', state = ''Maharashtra''\<rparr>,
      verification = \<lparr>verif_status = Verified\<rparr>,
      rating = \<lparr>average = 5, rating_count = 40\<rparr>,
      isActive = True, isFeatured = False, totalBookings = 25, createdAt = 20\<rparr>"

definition partnerNew :: partner where
  "partnerNew =
     \<lparr>partner_id = 106, userId = 16,
      businessInfo = \<lparr>categories = [Wedding, Maternity, Portrait, Event], experience = 0,
                      priceRange = \<lparr>min_val = 10000, max_val = 30000\<rparr>\<rparr>,
      location = \<lparr>city = ''Mumbai'', state = ''Maharashtra''\<rparr>,
      verification = \<lparr>verif_status = Verified\<rparr>,
      rating = \<lparr>average = 0, rating_count = 0\<rparr>,
      isActive = True, isFeatured = True, totalBookings = 0, createdAt = 70\<rparr>"

section \<open>The document store\<close>

text \<open>
  The two collections, with a flag for whether the database can be reached: a query on
  an unreachable store rejects, and the service logs and rethrows. The partner
  collection is a list (its natural order); inquiries are keyed by \<^verbatim>\<open>_id\<close>. The other
  error of the service is the \<^verbatim>\<open>SyntaxError\<close> that \<^verbatim>\<open>new RegExp\<close> throws.
\<close>

datatype error = DataAccessError | SyntaxError

record db =
  online :: bool
  partners :: "partner list"
  inquiries :: "nat \<rightharpoonup> inquiry"

section \<open>Finding matching partners\<close>

text \<open>
  \<^verbatim>\<open>new RegExp(pattern, "i")\<close>. A pattern that is plain text (no backslash and none of
  \<^verbatim>\<open>^ $ . | ? * + ( ) [ ] { }\<close>) compiles to a regular expression that is not
  anchored: it matches a string when the pattern occurs at some position of it, letter
  case ignored (\<open>regexTestI\<close>).
\<close>

definition plainText :: "string \<Rightarrow> bool" where
  "plainText s = list_all (\<lambda>c. c \<notin> set (CHR 0x5C # ''^$.|?*+()[]{}'')) s"

fun matchesAt :: "string \<Rightarrow> string \<Rightarrow> bool" where
  "matchesAt [] s = True"
| "matchesAt (p # ps) [] = False"
| "matchesAt (p # ps) (c # cs) = (toLowerCaseChar p = toLowerCaseChar c \<and> matchesAt ps cs)"

fun regexTestI :: "string \<Rightarrow> string \<Rightarrow> bool" where
  "regexTestI pattern [] = matchesAt pattern []"
| "regexTestI pattern (c # cs) = (matchesAt pattern (c # cs) \<or> regexTestI pattern cs)"

text \<open>
  A pattern whose only metacharacters are parentheses is a syntax error when the
  parentheses do not pair up: a \<^verbatim>\<open>(\<close> that is never closed (unterminated group) or a
  \<^verbatim>\<open>)\<close> that closes nothing. \<open>groupsClosed depth\<close> scans the pattern with the number
  of groups open so far.
\<close>

fun groupsClosed :: "nat \<Rightarrow> string \<Rightarrow> bool" where
  "groupsClosed depth [] = (depth = 0)"
| "groupsClosed depth (c # cs) =
     (if c = CHR ''('' then groupsClosed (Suc depth) cs
      else if c = CHR '')'' then depth \<noteq> 0 \<and> groupsClosed (depth - 1) cs
      else groupsClosed depth cs)"

definition plainApartFromGroups :: "string \<Rightarrow> bool" where
  "plainApartFromGroups s = plainText (filter (\<lambda>c. c \<noteq> CHR ''('' \<and> c \<noteq> CHR '')'') s)"

text \<open>
  The constructor itself: either it throws, or it yields the test of the compiled
  expression. The two cases above are written out. Every other pattern (one that uses
  further metacharacters, or whose groups pair up) is left to \<open>engine\<close>, a
  parameter that stands for the regular-expression engine of the host.
\<close>

type_synonym regexp = "string \<Rightarrow> bool"

type_synonym regexp_engine = "string \<Rightarrow> error + regexp"

definition newRegExp :: "regexp_engine \<Rightarrow> string \<Rightarrow> error + regexp" where
  "newRegExp engine pattern =
     (if plainText pattern then Inr (regexTestI pattern)
      else if plainApartFromGroups pattern \<and> \<not> groupsClosed 0 pattern then Inl SyntaxError
      else engine pattern)"

text \<open>\<^verbatim>\<open>"location.city": { $regex: regex }\<close>, for the compiled expression.\<close>

definition locationCriterion :: "regexp \<Rightarrow> partner \<Rightarrow> bool" where
  "locationCriterion regex partner = regex (city (location partner))"

text \<open>
  The budget filtering: the \<^verbatim>\<open>$or\<close> of the two price conditions, added to the criteria
  only when \<^verbatim>\<open>budget && budget.max\<close> is truthy; \<^verbatim>\<open>budget.min || 0\<close> is the lower bound.
\<close>

definition budgetCriterion :: "inquiry \<Rightarrow> partner \<Rightarrow> bool" where
  "budgetCriterion inquiry partner =
     (case budget inquiry of
        None \<Rightarrow> True
      | Some b \<Rightarrow>
          if max_val b \<noteq> 0
          then min_val (priceRange (businessInfo partner)) \<le> max_val b
               \<or> max_val (priceRange (businessInfo partner))
                    \<ge> (if min_val b \<noteq> 0 then min_val b else 0)
          else True)"

text \<open>
  The whole \<^verbatim>\<open>matchCriteria\<close> object, as the predicate the store evaluates on a partner;
  \<open>regex\<close> is the expression compiled from the inquiry's city.
\<close>

definition matchCriteria :: "regexp \<Rightarrow> inquiry \<Rightarrow> partner \<Rightarrow> bool" where
  "matchCriteria regex inquiry partner =
     (verif_status (verification partner) = Verified
      \<and> isActive partner = True
      \<and> category inquiry \<in> set (categories (businessInfo partner))
      \<and> locationCriterion regex partner
      \<and> budgetCriterion inquiry partner)"

text \<open>
  \<^verbatim>\<open>.sort({ isFeatured: -1, "rating.average": -1, totalBookings: -1, createdAt: -1 })\<close>:
  descending on each key in turn. Documents equal on all four keys keep the order of
  the collection.
\<close>

definition mongoSort :: "partner list \<Rightarrow> partner list" where
  "mongoSort ps =
     sort_key (\<lambda>p. (\<not> isFeatured p, - average (rating p), - totalBookings p, - int (createdAt p))) ps"

text \<open>\<^verbatim>\<open>.limit(n)\<close> of a MongoDB cursor: \<^verbatim>\<open>limit(0)\<close> sets no limit.\<close>

definition mongoLimit :: "nat \<Rightarrow> 'a list \<Rightarrow> 'a list" where
  "mongoLimit n xs = (if n = 0 then xs else take n xs)"

text \<open>\<^verbatim>\<open>Partner.find(matchCriteria).sort(...).limit(limit)\<close> on a reachable store.\<close>

definition partnerFind :: "db \<Rightarrow> regexp \<Rightarrow> inquiry \<Rightarrow> nat \<Rightarrow> partner list" where
  "partnerFind d regex inquiry limit =
     mongoLimit limit (mongoSort (filter (matchCriteria regex inquiry) (partners d)))"

text \<open>
  \<^verbatim>\<open>MatchingService.findMatchingPartners(inquiry, limit)\<close>. Building the criteria compiles
  the inquiry's city first; then the store is queried. The candidates the store returns
  are paired with their scores, sorted by \<^verbatim>\<open>(a, b) => b.score - a.score\<close>
  (\<^verbatim>\<open>Array.prototype.sort\<close> is stable) and mapped to their ids. Both the constructor and
  the query are inside the \<^verbatim>\<open>try\<close>: a syntax error of the pattern and a rejected query
  are the errors that the \<^verbatim>\<open>catch\<close> block logs and rethrows. The \<^verbatim>\<open>populate\<close> of the
  user and the log lines change neither the candidates nor the result and are left out.
\<close>

definition findMatchingPartners ::
    "regexp_engine \<Rightarrow> db \<Rightarrow> inquiry \<Rightarrow> nat \<Rightarrow> error + nat list" where
  "findMatchingPartners engine d inquiry limit =
     (case newRegExp engine (city (inquiryLocation inquiry)) of
        Inl e \<Rightarrow> Inl e
      | Inr regex \<Rightarrow>
          if \<not> online d then Inl DataAccessError
          else
            (let found = partnerFind d regex inquiry limit;
                 scoredPartners = map (\<lambda>p. (p, calculateMatchScore p inquiry)) found
             in Inr (map (\<lambda>item. partner_id (fst item))
                      (sort_key (\<lambda>item. - snd item) scoredPartners))))"

section \<open>Distributing an inquiry\<close>

record distribution_result =
  success :: bool
  assignedCount :: nat
  partnerIds :: "nat list"

text \<open>
  What the service takes from its host while distributing: the clock, read by
  \<^verbatim>\<open>new Date()\<close> (\<open>clock h k\<close> is the time of the \<open>k\<close>-th reading), and the source of
  fresh ObjectIds (\<open>objectId h k\<close> is the \<open>k\<close>-th id generated).
\<close>

record host =
  clock :: "nat \<Rightarrow> nat"
  objectId :: "nat \<Rightarrow> nat"

text \<open>
  \<^verbatim>\<open>partnerIds.map((partnerId) => ({ partnerId, assignedAt: new Date() }))\<close>: the plain
  objects the service builds, as pairs of \<^verbatim>\<open>partnerId\<close> and \<^verbatim>\<open>assignedAt\<close>; the clock is
  read once per entry.
\<close>

definition assignedPartnersOf :: "(nat \<Rightarrow> nat) \<Rightarrow> nat list \<Rightarrow> (nat \<times> nat) list" where
  "assignedPartnersOf clk ids = map (\<lambda>(k, pid). (pid, clk k)) (enumerate 0 ids)"

text \<open>
  The update is cast through \<^verbatim>\<open>inquirySchema\<close> before it is written: every entry of
  the \<^verbatim>\<open>assignedPartners\<close> array becomes a subdocument with an \<^verbatim>\<open>_id\<close> of its own and
  with the defaults of the schema, so that its \<^verbatim>\<open>response\<close> holds
  \<^verbatim>\<open>isAccepted: false\<close> and nothing else. (\<^verbatim>\<open>assignedAt\<close> is given by the service, so
  its default is not used.)
\<close>

definition defaultResponse :: response_info where
  "defaultResponse =
     \<lparr>message = None, quotation = None, respondedAt = None, isAccepted = False\<rparr>"

definition castAssignedPartners :: "(nat \<Rightarrow> nat) \<Rightarrow> (nat \<times> nat) list \<Rightarrow> assignment list" where
  "castAssignedPartners oid entries =
     map (\<lambda>(k, (pid, time)).
            \<lparr>assignment_id = oid k, partnerId = pid, assignedAt = Some time,
             response = Some defaultResponse\<rparr>)
       (enumerate 0 entries)"

text \<open>
  \<^verbatim>\<open>Inquiry.findByIdAndUpdate(inquiryId, { $set: { assignedPartners, status: "assigned" } })\<close>:
  one write to the document with that id; without \<^verbatim>\<open>upsert\<close>, an id that matches no
  document changes nothing and the call resolves to \<^verbatim>\<open>null\<close>.
\<close>

definition findByIdAndUpdate :: "(nat \<Rightarrow> nat) \<Rightarrow> db \<Rightarrow> nat \<Rightarrow> (nat \<times> nat) list \<Rightarrow> db" where
  "findByIdAndUpdate oid d inquiryId assigned =
     (case inquiries d inquiryId of
        None \<Rightarrow> d
      | Some inq \<Rightarrow>
          d\<lparr>inquiries := (inquiries d)(inquiryId \<mapsto>
               inq\<lparr>assignedPartners := castAssignedPartners oid assigned,
                   status := Assigned\<rparr>)\<rparr>)"

text \<open>
  \<^verbatim>\<open>MatchingService.distributeInquiry(inquiryId, partnerIds)\<close>: the outcome and the store
  after the call. The value of \<^verbatim>\<open>findByIdAndUpdate\<close> is awaited and dropped.
\<close>

definition distributeInquiry ::
    "host \<Rightarrow> db \<Rightarrow> nat \<Rightarrow> nat list \<Rightarrow> (error + distribution_result) \<times> db" where
  "distributeInquiry h d inquiryId ids =
     (let assigned = assignedPartnersOf (clock h) ids
      in if \<not> online d then (Inl DataAccessError, d)
         else (Inr \<lparr>success = True, assignedCount = length ids, partnerIds = ids\<rparr>,
               findByIdAndUpdate (objectId h) d inquiryId assigned))"

section \<open>The ranking as the specification words it\<close>

text \<open>
  The eligibility predicate and the ranking of the design text, for comparison with
  \<open>findMatchingPartners\<close>: every eligible partner is scored, all are sorted by score
  descending (stably), and the first \<open>limit\<close> are taken.
\<close>

definition specEligible :: "inquiry \<Rightarrow> partner \<Rightarrow> bool" where
  "specEligible inquiry partner =
     (verif_status (verification partner) = Verified
      \<and> isActive partner
      \<and> category inquiry \<in> set (categories (businessInfo partner))
      \<and> toLowerCase (city (location partner)) = toLowerCase (city (inquiryLocation inquiry))
      \<and> (case budget inquiry of
            None \<Rightarrow> True
          | Some b \<Rightarrow> min_val (priceRange (businessInfo partner)) \<le> max_val b
                      \<and> max_val (priceRange (businessInfo partner)) \<ge> min_val b))"

definition specFindMatchingPartners :: "partner list \<Rightarrow> inquiry \<Rightarrow> nat \<Rightarrow> nat list" where
  "specFindMatchingPartners ps inquiry limit =
     map partner_id
       (take limit (sort_key (\<lambda>p. - calculateMatchScore p inquiry)
                      (filter (specEligible inquiry) ps)))"

section \<open>Example stores\<close>

text \<open>A second inquiry: same city and budget as the first, everything else different.\<close>

definition otherInquiry :: inquiry where
  "otherInquiry =
     \<lparr>clientId = 2, category = Portrait,
      eventDetails = \<lparr>eventDate = 2000, eventTime = ''09:30'', duration = 2\<rparr>,
      budget = Some \<lparr>min_val = 25000, max_val = 75000\<rparr>,
      inquiryLocation = \<lparr>city = ''Mumbai'', state = ''Goa''\<rparr>,
      status = Booked,
      assignedPartners =
        [\<lparr>assignment_id = 8001, partnerId = 102, assignedAt = Some 7,
          response = Some defaultResponse\<rparr>],
      selectedPartner = Some 102\<rparr>"

text \<open>A third inquiry, for a city written with an opening parenthesis that is never closed.\<close>

definition parenInquiry :: inquiry where
  "parenInquiry =
     \<lparr>clientId = 3, category = Wedding,
      eventDetails = \<lparr>eventDate = 3000, eventTime = ''11:00'', duration = 6\<rparr>,
      budget = Some \<lparr>min_val = 25000, max_val = 75000\<rparr>,
      inquiryLocation = \<lparr>city = ''Mumbai ('', state = ''Maharashtra''\<rparr>,
      status = New, assignedPartners = [], selectedPartner = None\<rparr>"

definition exampleDb :: db where
  "exampleDb =
     \<lparr>online = True,
      partners = [partnerPremium, partnerNavi, partnerDelhi, partnerA],
      inquiries = [1 \<mapsto> exampleInquiry, 2 \<mapsto> otherInquiry]\<rparr>"

definition exampleHost :: host where
  "exampleHost = \<lparr>clock = (\<lambda>k. 500 + k), objectId = (\<lambda>k. 9000 + k)\<rparr>"

text \<open>
  A value for the engine parameter: every pattern compiles, to an expression that
  matches nothing. None of the examples reaches it, since their cities are plain text.
\<close>

definition exampleEngine :: regexp_engine where
  "exampleEngine pattern = Inr (\<lambda>s. False)"

definition rankingDb :: db where
  "rankingDb =
     \<lparr>online = True,
      partners = [partnerTop, partnerNew],
      inquiries = [1 \<mapsto> exampleInquiry]\<rparr>"

section \<open>Auxiliary facts\<close>

lemmas example_defs =
  exampleInquiry_def otherInquiry_def partnerA_def partnerDelhi_def partnerNavi_def
  partnerPremium_def partnerTop_def partnerNew_def

lemmas lower_defs = toLowerCase_def toLowerCaseChar_def

text \<open>The pattern search finds exactly the occurrences of the lower-cased pattern.\<close>

lemma matchesAt_iff:
  "matchesAt p s \<longleftrightarrow> (\<exists>post. toLowerCase s = toLowerCase p @ post)"
  by (induction p s rule: matchesAt.induct) (auto simp: toLowerCase_def)

lemma regexTestI_iff:
  "regexTestI p s \<longleftrightarrow> (\<exists>pre post. toLowerCase s = pre @ toLowerCase p @ post)"
proof (induction s)
  case Nil
  show ?case by (simp add: matchesAt_iff) (simp add: toLowerCase_def)
next
  case (Cons c cs)
  show ?case
  proof
    assume "regexTestI p (c # cs)"
    then consider "matchesAt p (c # cs)" | "regexTestI p cs" by auto
    then show "\<exists>pre post. toLowerCase (c # cs) = pre @ toLowerCase p @ post"
    proof cases
      case 1
      then obtain post where "toLowerCase (c # cs) = toLowerCase p @ post"
        using matchesAt_iff by blast
      then have "toLowerCase (c # cs) = [] @ toLowerCase p @ post" by simp
      then show ?thesis by blast
    next
      case 2
      then obtain pre post where "toLowerCase cs = pre @ toLowerCase p @ post"
        using Cons.IH by blast
      then have "toLowerCase (c # cs) = (toLowerCaseChar c # pre) @ toLowerCase p @ post"
        by (simp add: toLowerCase_def)
      then show ?thesis by blast
    qed
  next
    assume "\<exists>pre post. toLowerCase (c # cs) = pre @ toLowerCase p @ post"
    then obtain pre post where eq: "toLowerCase (c # cs) = pre @ toLowerCase p @ post"
      by blast
    show "regexTestI p (c # cs)"
    proof (cases pre)
      case Nil
      with eq have "matchesAt p (c # cs)" using matchesAt_iff by auto
      then show ?thesis by simp
    next
      case (Cons a pre')
      with eq have "toLowerCase cs = pre' @ toLowerCase p @ post"
        by (simp add: toLowerCase_def)
      then have "regexTestI p cs" using Cons.IH by blast
      then show ?thesis by simp
    qed
  qed
qed

text \<open>A plain-text pattern always compiles, to the search for its occurrences.\<close>

lemma newRegExp_plainText:
  "plainText pattern \<Longrightarrow> newRegExp engine pattern = Inr (regexTestI pattern)"
  by (simp add: newRegExp_def)

text \<open>Sorting the scored pairs is sorting the partners by their score.\<close>

lemma insort_key_map:
  "insort_key g (h x) (map h xs) = map h (insort_key (\<lambda>y. g (h y)) x xs)"
  by (induction xs) auto

lemma sort_key_map:
  "sort_key g (map h xs) = map h (sort_key (\<lambda>y. g (h y)) xs)"
  by (induction xs) (auto simp: insort_key_map)

lemma findMatchingPartners_online:
  "online d \<Longrightarrow> newRegExp engine (city (inquiryLocation inquiry)) = Inr regex \<Longrightarrow>
   findMatchingPartners engine d inquiry limit =
     Inr (map partner_id
           (sort_key (\<lambda>p. - calculateMatchScore p inquiry)
              (partnerFind d regex inquiry limit)))"
  by (simp add: findMatchingPartners_def Let_def sort_key_map)

lemma sorted_desc:
  "sorted_wrt (\<lambda>a b. f b \<le> f a) (sort_key (\<lambda>p. - f p) xs)" for f :: "'a \<Rightarrow> rat"
proof -
  have "sorted (map (\<lambda>p. - f p) (sort_key (\<lambda>p. - f p) xs))" by (rule sorted_sort_key)
  then show ?thesis by (simp add: sorted_map)
qed

lemma stable_desc:
  "filter (\<lambda>p. f p = k) (sort_key (\<lambda>p. - f p) xs) = filter (\<lambda>p. f p = k) xs"
  for f :: "'a \<Rightarrow> rat"
proof -
  have "filter (\<lambda>p. - f p = - k) (sort_key (\<lambda>p. - f p) xs) = filter (\<lambda>p. - f p = - k) xs"
    by (rule sort_key_stable)
  then show ?thesis by simp
qed

text \<open>
  Whatever the engine, the store and the inquiry: a call that returns with a limit of
  at least 1 returns at most that many ids.
\<close>

lemma length_mongoLimit: "1 \<le> n \<Longrightarrow> length (mongoLimit n xs) \<le> n"
  by (simp add: mongoLimit_def)

lemma findMatchingPartners_length:
  "findMatchingPartners engine d inquiry limit = Inr ids \<Longrightarrow> 1 \<le> limit \<Longrightarrow>
   length ids \<le> limit"
  by (auto simp: findMatchingPartners_def Let_def partnerFind_def length_mongoLimit
      split: sum.splits if_splits)

text \<open>The assignment entries as they are stored.\<close>

lemma map_of_snd_enumerate:
  "map (\<lambda>x. f (snd x)) (enumerate n xs) = map f xs"
proof -
  have "map (\<lambda>x. f (snd x)) (enumerate n xs) = map f (map snd (enumerate n xs))"
    by (simp add: comp_def del: map_snd_enumerate)
  then show ?thesis by simp
qed

lemma map_partnerId_stored:
  "map partnerId (castAssignedPartners oid (assignedPartnersOf clk ids)) = ids"
proof -
  have "map partnerId (castAssignedPartners oid (assignedPartnersOf clk ids))
          = map fst (assignedPartnersOf clk ids)"
    by (simp add: castAssignedPartners_def case_prod_unfold comp_def map_of_snd_enumerate)
  also have "\<dots> = ids"
    by (simp add: assignedPartnersOf_def case_prod_unfold comp_def map_of_snd_enumerate)
  finally show ?thesis .
qed

lemma stored_fields:
  "a \<in> set (castAssignedPartners oid entries) \<Longrightarrow>
   assignedAt a \<noteq> None \<and> response a = Some defaultResponse"
  by (auto simp: castAssignedPartners_def)

lemma length_stored:
  "length (castAssignedPartners oid (assignedPartnersOf clk ids)) = length ids"
  by (simp add: castAssignedPartners_def assignedPartnersOf_def)

section \<open>Scoring: properties\<close>

text \<open>
  C5, as the code computes it. For the wedding inquiry in Mumbai (budget 25000 to 75000)
  and partner A of the worked example, \<open>calculateMatchScore\<close> returns 102.5: base 10,
  featured 20, rating 22.5, experience 10, city 15, budget overlap 10, bookings 10,
  specialization 5. The containment bonus of 5 is not given, since A's lowest price
  20000 is below the budget's minimum.
\<close>

theorem calculateMatchScore_example:
  "calculateMatchScore partnerA exampleInquiry = 205 / 2"
  by (simp add: calculateMatchScore_def partnerA_def exampleInquiry_def lower_defs)

text \<open>The value the worked example announces, 107.5, is not what the function returns.\<close>

theorem calculateMatchScore_example_not_107_5:
  "calculateMatchScore partnerA exampleInquiry \<noteq> 215 / 2"
  by (simp add: calculateMatchScore_def partnerA_def exampleInquiry_def lower_defs)

text \<open>
  C9. For every partner whose rating average, experience and booking count are not
  negative, and every inquiry, the match score is at least the base credit 10.
\<close>

theorem calculateMatchScore_ge_base:
  assumes "0 \<le> average (rating p)"
    and "0 \<le> experience (businessInfo p)"
    and "0 \<le> totalBookings p"
  shows "10 \<le> calculateMatchScore p i"
proof -
  have "0 \<le> min (experience (businessInfo p) * 2) 20"
    using assms(2) by simp
  then show ?thesis
    using assms(1,3) by (simp add: calculateMatchScore_def Let_def split: option.splits)
qed

theorem calculateMatchScore_ge_base_witness:
  "0 \<le> average (rating partnerNew) \<and> 0 \<le> experience (businessInfo partnerNew)
   \<and> 0 \<le> totalBookings partnerNew \<and> 10 \<le> calculateMatchScore partnerNew exampleInquiry"
proof -
  have h: "0 \<le> average (rating partnerNew)" "0 \<le> experience (businessInfo partnerNew)"
    "0 \<le> totalBookings partnerNew"
    by (simp_all add: partnerNew_def)
  from calculateMatchScore_ge_base [OF h, of exampleInquiry] h show ?thesis by simp
qed

text \<open>
  C10. The score depends on the inquiry only through its city and its budget: two
  inquiries that agree on both get the same score for every partner, whatever their
  category, event details, status, client, assignments or selected partner.
\<close>

theorem calculateMatchScore_reads_city_and_budget:
  assumes "city (inquiryLocation i1) = city (inquiryLocation i2)"
    and "budget i1 = budget i2"
  shows "calculateMatchScore p i1 = calculateMatchScore p i2"
  using assms by (simp add: calculateMatchScore_def)

theorem calculateMatchScore_reads_city_and_budget_witness:
  "city (inquiryLocation exampleInquiry) = city (inquiryLocation otherInquiry)
   \<and> budget exampleInquiry = budget otherInquiry
   \<and> category exampleInquiry \<noteq> category otherInquiry
   \<and> status exampleInquiry \<noteq> status otherInquiry
   \<and> calculateMatchScore partnerA exampleInquiry = calculateMatchScore partnerA otherInquiry"
proof -
  have h: "city (inquiryLocation exampleInquiry) = city (inquiryLocation otherInquiry)"
    "budget exampleInquiry = budget otherInquiry"
    by (simp_all add: exampleInquiry_def otherInquiry_def)
  have d: "category exampleInquiry \<noteq> category otherInquiry"
    "status exampleInquiry \<noteq> status otherInquiry"
    by (simp_all add: exampleInquiry_def otherInquiry_def)
  from calculateMatchScore_reads_city_and_budget [OF h, of partnerA] h d
  show ?thesis by simp
qed

section \<open>Eligibility: properties\<close>

text \<open>
  C3, at a failing input. The inquiry's budget is 25000 to 75000 and the partner's price
  range is 100000 to 200000: the ranges do not overlap (the partner's minimum is above
  the budget's maximum), yet the partner passes the budget filtering, because the two
  price conditions are joined by \<^verbatim>\<open>$or\<close>; the partner satisfies the whole criteria
  object and is among the ids returned.
\<close>

theorem budgetCriterion_admits_disjoint_range:
  "budget exampleInquiry = Some \<lparr>min_val = 25000, max_val = 75000\<rparr>
   \<and> priceRange (businessInfo partnerPremium) = \<lparr>min_val = 100000, max_val = 200000\<rparr>
   \<and> \<not> (min_val (priceRange (businessInfo partnerPremium)) \<le> 75000
         \<and> max_val (priceRange (businessInfo partnerPremium)) \<ge> 25000)
   \<and> budgetCriterion exampleInquiry partnerPremium
   \<and> matchCriteria (regexTestI (city (inquiryLocation exampleInquiry)))
        exampleInquiry partnerPremium
   \<and> partner_id partnerPremium = 104
   \<and> findMatchingPartners exampleEngine exampleDb exampleInquiry 5 = Inr [101, 104, 103]"
proof (intro conjI)
  show "budget exampleInquiry = Some \<lparr>min_val = 25000, max_val = 75000\<rparr>"
    by (simp add: exampleInquiry_def)
  show "priceRange (businessInfo partnerPremium) = \<lparr>min_val = 100000, max_val = 200000\<rparr>"
    by (simp add: partnerPremium_def)
  show "\<not> (min_val (priceRange (businessInfo partnerPremium)) \<le> 75000
         \<and> max_val (priceRange (businessInfo partnerPremium)) \<ge> 25000)"
    by (simp add: partnerPremium_def)
  show "budgetCriterion exampleInquiry partnerPremium"
    by (simp add: budgetCriterion_def exampleInquiry_def partnerPremium_def)
  show "matchCriteria (regexTestI (city (inquiryLocation exampleInquiry)))
          exampleInquiry partnerPremium"
    by (simp add: matchCriteria_def locationCriterion_def budgetCriterion_def
        exampleInquiry_def partnerPremium_def lower_defs)
  show "partner_id partnerPremium = 104"
    by (simp add: partnerPremium_def)
  show "findMatchingPartners exampleEngine exampleDb exampleInquiry 5 = Inr [101, 104, 103]"
    by code_simp
qed

text \<open>
  C4, as the code decides it. For an inquiry city that is plain text, the constructor
  yields an expression, and a partner passes the location test with it exactly when the
  inquiry city occurs somewhere in the partner's city, letter case ignored: the
  partner's lower-cased city is some prefix, then the lower-cased inquiry city, then
  some rest. Equal cities are the case where prefix and rest are empty; a partner city
  that properly contains the inquiry city passes too.
\<close>

theorem locationCriterion_iff_occurs:
  assumes "plainText (city (inquiryLocation inquiry))"
  shows "\<exists>regex. newRegExp engine (city (inquiryLocation inquiry)) = Inr regex
    \<and> (locationCriterion regex partner \<longleftrightarrow>
        (\<exists>pre post. toLowerCase (city (location partner))
            = pre @ toLowerCase (city (inquiryLocation inquiry)) @ post))"
proof -
  have "newRegExp engine (city (inquiryLocation inquiry))
          = Inr (regexTestI (city (inquiryLocation inquiry)))"
    using assms by (rule newRegExp_plainText)
  moreover have "locationCriterion (regexTestI (city (inquiryLocation inquiry))) partner \<longleftrightarrow>
        (\<exists>pre post. toLowerCase (city (location partner))
            = pre @ toLowerCase (city (inquiryLocation inquiry)) @ post)"
    by (simp add: locationCriterion_def regexTestI_iff)
  ultimately show ?thesis by blast
qed

theorem locationCriterion_iff_occurs_witness:
  "plainText (city (inquiryLocation exampleInquiry))
   \<and> toLowerCase (city (location partnerNavi))
       = ''navi '' @ toLowerCase (city (inquiryLocation exampleInquiry)) @ []
   \<and> (\<exists>regex. newRegExp exampleEngine (city (inquiryLocation exampleInquiry)) = Inr regex
        \<and> locationCriterion regex partnerNavi)"
proof -
  have h: "plainText (city (inquiryLocation exampleInquiry))"
    by code_simp
  have e: "toLowerCase (city (location partnerNavi))
       = ''navi '' @ toLowerCase (city (inquiryLocation exampleInquiry)) @ []"
    by code_simp
  then have o: "\<exists>pre post. toLowerCase (city (location partnerNavi))
       = pre @ toLowerCase (city (inquiryLocation exampleInquiry)) @ post"
    by blast
  from locationCriterion_iff_occurs [OF h, of exampleEngine partnerNavi] o
  have "\<exists>regex. newRegExp exampleEngine (city (inquiryLocation exampleInquiry)) = Inr regex
        \<and> locationCriterion regex partnerNavi"
    by blast
  with h e show ?thesis by simp
qed

text \<open>
  A partner in Navi Mumbai satisfies the whole criteria object of an inquiry for Mumbai
  and is among the ids returned, although the two cities are not equal when letter case
  is ignored.
\<close>

theorem locationCriterion_admits_containing_city:
  "city (inquiryLocation exampleInquiry) = ''Mumbai''
   \<and> city (location partnerNavi) = ''Navi Mumbai''
   \<and> toLowerCase (city (location partnerNavi))
       \<noteq> toLowerCase (city (inquiryLocation exampleInquiry))
   \<and> newRegExp exampleEngine (city (inquiryLocation exampleInquiry))
       = Inr (regexTestI ''Mumbai'')
   \<and> locationCriterion (regexTestI ''Mumbai'') partnerNavi
   \<and> matchCriteria (regexTestI ''Mumbai'') exampleInquiry partnerNavi
   \<and> partner_id partnerNavi = 103
   \<and> findMatchingPartners exampleEngine exampleDb exampleInquiry 5 = Inr [101, 104, 103]"
proof (intro conjI)
  show "city (inquiryLocation exampleInquiry) = ''Mumbai''"
    by (simp add: exampleInquiry_def)
  show "city (location partnerNavi) = ''Navi Mumbai''"
    by (simp add: partnerNavi_def)
  show "toLowerCase (city (location partnerNavi))
       \<noteq> toLowerCase (city (inquiryLocation exampleInquiry))"
    by (simp add: exampleInquiry_def partnerNavi_def lower_defs)
  show "newRegExp exampleEngine (city (inquiryLocation exampleInquiry))
       = Inr (regexTestI ''Mumbai'')"
    by (simp add: newRegExp_def plainText_def exampleInquiry_def)
  show "locationCriterion (regexTestI ''Mumbai'') partnerNavi"
    by (simp add: locationCriterion_def partnerNavi_def lower_defs)
  show "matchCriteria (regexTestI ''Mumbai'') exampleInquiry partnerNavi"
    by (simp add: matchCriteria_def locationCriterion_def budgetCriterion_def
        exampleInquiry_def partnerNavi_def lower_defs)
  show "partner_id partnerNavi = 103"
    by (simp add: partnerNavi_def)
  show "findMatchingPartners exampleEngine exampleDb exampleInquiry 5 = Inr [101, 104, 103]"
    by code_simp
qed

section \<open>Ranking: properties\<close>

text \<open>
  C2, as the code ranks. With the store reachable and a plain-text inquiry city, the ids
  returned are those of a list \<open>ranked\<close> of partners such that: \<open>ranked\<close> holds
  exactly the candidates the store query returns (the partners satisfying the criteria,
  in the store's order by featured flag, rating, bookings and creation time, cut by
  \<^verbatim>\<open>limit\<close>); the scores along \<open>ranked\<close> never increase; and the partners of any one
  score stand in the same order as among the store's candidates.
\<close>

theorem findMatchingPartners_reranks_candidates:
  assumes "online d" and "plainText (city (inquiryLocation inquiry))"
  shows "\<exists>ranked.
     findMatchingPartners engine d inquiry limit = Inr (map partner_id ranked)
     \<and> mset ranked
         = mset (mongoLimit limit (mongoSort
                  (filter (matchCriteria (regexTestI (city (inquiryLocation inquiry))) inquiry)
                     (partners d))))
     \<and> sorted_wrt (\<lambda>a b. calculateMatchScore b inquiry \<le> calculateMatchScore a inquiry) ranked
     \<and> (\<forall>k. filter (\<lambda>p. calculateMatchScore p inquiry = k) ranked
            = filter (\<lambda>p. calculateMatchScore p inquiry = k)
                (mongoLimit limit (mongoSort
                  (filter (matchCriteria (regexTestI (city (inquiryLocation inquiry))) inquiry)
                     (partners d)))))"
proof -
  let ?regex = "regexTestI (city (inquiryLocation inquiry))"
  let ?found = "partnerFind d ?regex inquiry limit"
  let ?ranked = "sort_key (\<lambda>p. - calculateMatchScore p inquiry) ?found"
  have c: "newRegExp engine (city (inquiryLocation inquiry)) = Inr ?regex"
    using assms(2) by (rule newRegExp_plainText)
  have r: "findMatchingPartners engine d inquiry limit = Inr (map partner_id ?ranked)"
    using assms(1) c by (rule findMatchingPartners_online)
  have m: "mset ?ranked = mset ?found" by simp
  have s: "sorted_wrt (\<lambda>a b. calculateMatchScore b inquiry \<le> calculateMatchScore a inquiry)
             ?ranked"
    by (rule sorted_desc)
  have t: "\<forall>k. filter (\<lambda>p. calculateMatchScore p inquiry = k) ?ranked
            = filter (\<lambda>p. calculateMatchScore p inquiry = k) ?found"
    by (simp add: stable_desc)
  from r m s t show ?thesis unfolding partnerFind_def by blast
qed

theorem findMatchingPartners_reranks_candidates_witness:
  "online rankingDb \<and> plainText (city (inquiryLocation exampleInquiry))
   \<and> findMatchingPartners exampleEngine rankingDb exampleInquiry 5 = Inr [105, 106]
   \<and> (\<exists>ranked.
     findMatchingPartners exampleEngine rankingDb exampleInquiry 5
       = Inr (map partner_id ranked)
     \<and> mset ranked
         = mset (mongoLimit 5 (mongoSort
                  (filter (matchCriteria (regexTestI (city (inquiryLocation exampleInquiry)))
                             exampleInquiry)
                     (partners rankingDb))))
     \<and> sorted_wrt (\<lambda>a b. calculateMatchScore b exampleInquiry
                            \<le> calculateMatchScore a exampleInquiry) ranked)"
proof -
  have h1: "online rankingDb" by (simp add: rankingDb_def)
  have h2: "plainText (city (inquiryLocation exampleInquiry))" by code_simp
  have v: "findMatchingPartners exampleEngine rankingDb exampleInquiry 5 = Inr [105, 106]"
    by code_simp
  from findMatchingPartners_reranks_candidates [OF h1 h2, of exampleEngine 5] h1 h2 v
  show ?thesis by blast
qed

text \<open>
  With \<^verbatim>\<open>limit = 1\<close> the store hands over the featured newcomer only (score 55), and that
  is the one id returned; ranking all eligible partners by score first would return the
  unfeatured partner of score 100, who is eligible and is not returned.
\<close>

theorem findMatchingPartners_misses_higher_score:
  "findMatchingPartners exampleEngine rankingDb exampleInquiry 1 = Inr [106]
   \<and> specFindMatchingPartners (partners rankingDb) exampleInquiry 1 = [105]
   \<and> partnerTop \<in> set (partners rankingDb)
   \<and> specEligible exampleInquiry partnerTop
   \<and> partner_id partnerTop = 105
   \<and> partner_id partnerNew = 106
   \<and> calculateMatchScore partnerNew exampleInquiry
       < calculateMatchScore partnerTop exampleInquiry"
  by code_simp

text \<open>
  C7, at a failing input. The store is reachable and the inquiry's city is
  \<^verbatim>\<open>Mumbai (\<close>, which the request validation accepts (2 to 50 characters). No partner
  has a city containing that text, so the empty list is the answer the contract
  promises; but the city is handed to \<^verbatim>\<open>new RegExp\<close> as it is, the unclosed
  parenthesis is an unterminated group, and \<open>findMatchingPartners\<close> throws a
  \<^verbatim>\<open>SyntaxError\<close>, which is not a failure of data access. This holds whatever the
  engine parameter is.
\<close>

theorem findMatchingPartners_throws_on_unclosed_group:
  "online exampleDb
   \<and> city (inquiryLocation parenInquiry) = ''Mumbai (''
   \<and> filter (\<lambda>p. regexTestI (city (inquiryLocation parenInquiry)) (city (location p)))
        (partners exampleDb) = []
   \<and> newRegExp engine (city (inquiryLocation parenInquiry)) = Inl SyntaxError
   \<and> findMatchingPartners engine exampleDb parenInquiry 5 = Inl SyntaxError"
proof (intro conjI)
  show "online exampleDb" by (simp add: exampleDb_def)
  show "city (inquiryLocation parenInquiry) = ''Mumbai (''" by (simp add: parenInquiry_def)
  show "filter (\<lambda>p. regexTestI (city (inquiryLocation parenInquiry)) (city (location p)))
        (partners exampleDb) = []"
    by code_simp
  show c: "newRegExp engine (city (inquiryLocation parenInquiry)) = Inl SyntaxError"
    by (simp add: newRegExp_def plainText_def plainApartFromGroups_def parenInquiry_def)
  show "findMatchingPartners engine exampleDb parenInquiry 5 = Inl SyntaxError"
    by (simp add: findMatchingPartners_def c)
qed

section \<open>Distribution: properties\<close>

text \<open>
  C1, at a failing input. No inquiry has the id 999; \<open>distributeInquiry\<close> still
  returns the success object with \<^verbatim>\<open>assignedCount = 2\<close>, not an error. The store is
  left as it was.
\<close>

theorem distributeInquiry_missing_inquiry_reports_success:
  "inquiries exampleDb 999 = None
   \<and> distributeInquiry exampleHost exampleDb 999 [101, 103]
       = (Inr \<lparr>success = True, assignedCount = 2, partnerIds = [101, 103]\<rparr>, exampleDb)"
  by (simp add: distributeInquiry_def findByIdAndUpdate_def exampleDb_def)

text \<open>
  C6, as the code stores it. For an inquiry that exists and a non-empty list of partner
  ids, with the store reachable, \<open>distributeInquiry\<close> returns the success object, and
  afterwards the inquiry has status assigned and an assignment list that has one entry
  per id passed, in the order passed, whatever the list held before; every entry has a
  timestamp, and a response that holds the schema's default \<^verbatim>\<open>isAccepted: false\<close> and
  nothing else (no message, no quotation, no time of response).
\<close>

theorem distributeInquiry_assigns:
  assumes "online d" and "inquiries d inquiryId = Some inq" and "ids \<noteq> []"
  shows "\<exists>inq'.
       fst (distributeInquiry h d inquiryId ids)
         = Inr \<lparr>success = True, assignedCount = length ids, partnerIds = ids\<rparr>
     \<and> inquiries (snd (distributeInquiry h d inquiryId ids)) inquiryId = Some inq'
     \<and> status inq' = Assigned
     \<and> length (assignedPartners inq') = length ids
     \<and> map partnerId (assignedPartners inq') = ids
     \<and> (\<forall>a \<in> set (assignedPartners inq').
           assignedAt a \<noteq> None
           \<and> response a = Some \<lparr>message = None, quotation = None, respondedAt = None,
                                 isAccepted = False\<rparr>)"
proof -
  let ?stored = "castAssignedPartners (objectId h) (assignedPartnersOf (clock h) ids)"
  let ?inq' = "inq\<lparr>assignedPartners := ?stored, status := Assigned\<rparr>"
  have r: "fst (distributeInquiry h d inquiryId ids)
         = Inr \<lparr>success = True, assignedCount = length ids, partnerIds = ids\<rparr>"
    using assms(1) by (simp add: distributeInquiry_def)
  have s: "inquiries (snd (distributeInquiry h d inquiryId ids)) inquiryId = Some ?inq'"
    using assms(1,2) by (simp add: distributeInquiry_def findByIdAndUpdate_def)
  have f: "\<forall>a \<in> set (assignedPartners ?inq').
           assignedAt a \<noteq> None
           \<and> response a = Some \<lparr>message = None, quotation = None, respondedAt = None,
                                 isAccepted = False\<rparr>"
    using stored_fields [of _ "objectId h" "assignedPartnersOf (clock h) ids"]
    by (simp add: defaultResponse_def)
  from r s f show ?thesis
    using map_partnerId_stored [of "objectId h" "clock h" ids]
      length_stored [of "objectId h" "clock h" ids]
    by (intro exI [of _ ?inq']) simp
qed

theorem distributeInquiry_assigns_witness:
  "online exampleDb \<and> inquiries exampleDb 2 = Some otherInquiry
   \<and> [101, 103] \<noteq> ([] :: nat list)
   \<and> map partnerId (assignedPartners otherInquiry) = [102]
   \<and> (\<exists>inq'.
        inquiries (snd (distributeInquiry exampleHost exampleDb 2 [101, 103])) 2 = Some inq'
        \<and> status inq' = Assigned
        \<and> map partnerId (assignedPartners inq') = [101, 103])"
proof -
  have h1: "online exampleDb" by (simp add: exampleDb_def)
  have h2: "inquiries exampleDb 2 = Some otherInquiry" by (simp add: exampleDb_def)
  have h3: "[101, 103] \<noteq> ([] :: nat list)" by simp
  have p: "map partnerId (assignedPartners otherInquiry) = [102]"
    by (simp add: otherInquiry_def)
  from distributeInquiry_assigns [OF h1 h2 h3, of exampleHost]
  obtain inq' where
    "inquiries (snd (distributeInquiry exampleHost exampleDb 2 [101, 103])) 2 = Some inq'"
    "status inq' = Assigned" "map partnerId (assignedPartners inq') = [101, 103]"
    by auto
  then have "\<exists>inq'.
       inquiries (snd (distributeInquiry exampleHost exampleDb 2 [101, 103])) 2 = Some inq'
        \<and> status inq' = Assigned
        \<and> map partnerId (assignedPartners inq') = [101, 103]"
    by simp
  with h1 h2 h3 p show ?thesis by simp
qed

text \<open>
  The entries stored for the ids 101 and 103 carry a response: the one the schema's
  defaults make, with \<^verbatim>\<open>isAccepted: false\<close>. The response is not absent.
\<close>

theorem distributeInquiry_stores_default_response:
  "inquiries exampleDb 2 = Some otherInquiry
   \<and> inquiries (snd (distributeInquiry exampleHost exampleDb 2 [101, 103])) 2
       = Some (otherInquiry
           \<lparr>assignedPartners :=
              [\<lparr>assignment_id = 9000, partnerId = 101, assignedAt = Some 500,
                response = Some \<lparr>message = None, quotation = None, respondedAt = None,
                                  isAccepted = False\<rparr>\<rparr>,
               \<lparr>assignment_id = 9001, partnerId = 103, assignedAt = Some 501,
                response = Some \<lparr>message = None, quotation = None, respondedAt = None,
                                  isAccepted = False\<rparr>\<rparr>],
            status := Assigned\<rparr>)
   \<and> Some \<lparr>message = None, quotation = None, respondedAt = None, isAccepted = False\<rparr>
       \<noteq> (None :: response_info option)"
  by (simp add: distributeInquiry_def findByIdAndUpdate_def castAssignedPartners_def
      assignedPartnersOf_def defaultResponse_def exampleDb_def exampleHost_def enumerate_eq_zip
      upt_rec)

text \<open>
  C8. Whatever \<open>distributeInquiry\<close> returns, the partner collection is unchanged and
  every inquiry other than the one addressed is unchanged; and the store afterwards is
  either the store before, or the store before with the addressed inquiry's assignment
  list and status both written.
\<close>

theorem distributeInquiry_frame:
  assumes "distributeInquiry h d inquiryId ids = (r, d')"
  shows "partners d' = partners d
     \<and> online d' = online d
     \<and> (\<forall>j. j \<noteq> inquiryId \<longrightarrow> inquiries d' j = inquiries d j)
     \<and> (d' = d
        \<or> (\<exists>inq. inquiries d inquiryId = Some inq
              \<and> d' = d\<lparr>inquiries := (inquiries d)(inquiryId \<mapsto>
                       inq\<lparr>assignedPartners :=
                             castAssignedPartners (objectId h)
                               (assignedPartnersOf (clock h) ids),
                           status := Assigned\<rparr>)\<rparr>))"
proof (cases "online d")
  case False
  with assms have "d' = d" by (simp add: distributeInquiry_def)
  then show ?thesis by simp
next
  case True
  with assms have d': "d' = findByIdAndUpdate (objectId h) d inquiryId
                              (assignedPartnersOf (clock h) ids)"
    by (simp add: distributeInquiry_def)
  show ?thesis
  proof (cases "inquiries d inquiryId")
    case None
    with d' have "d' = d" by (simp add: findByIdAndUpdate_def)
    then show ?thesis by simp
  next
    case (Some inq)
    with d' have "d' = d\<lparr>inquiries := (inquiries d)(inquiryId \<mapsto>
                       inq\<lparr>assignedPartners :=
                             castAssignedPartners (objectId h)
                               (assignedPartnersOf (clock h) ids),
                           status := Assigned\<rparr>)\<rparr>"
      by (simp add: findByIdAndUpdate_def)
    with Some show ?thesis by simp
  qed
qed

theorem distributeInquiry_frame_witness:
  "fst (distributeInquiry exampleHost exampleDb 1 [101, 103])
     = Inr \<lparr>success = True, assignedCount = 2, partnerIds = [101, 103]\<rparr>
   \<and> (2::nat) \<noteq> 1
   \<and> partners (snd (distributeInquiry exampleHost exampleDb 1 [101, 103]))
       = partners exampleDb
   \<and> inquiries (snd (distributeInquiry exampleHost exampleDb 1 [101, 103])) 2
       = Some otherInquiry
   \<and> snd (distributeInquiry exampleHost exampleDb 1 [101, 103]) \<noteq> exampleDb"
proof -
  let ?out = "distributeInquiry exampleHost exampleDb 1 [101, 103]"
  have h: "?out = (fst ?out, snd ?out)" by simp
  have r: "fst ?out = Inr \<lparr>success = True, assignedCount = 2, partnerIds = [101, 103]\<rparr>"
    by (simp add: distributeInquiry_def exampleDb_def)
  have n: "(2::nat) \<noteq> 1" by simp
  have o: "inquiries exampleDb 2 = Some otherInquiry" by (simp add: exampleDb_def)
  have c: "inquiries (snd ?out) 1 \<noteq> inquiries exampleDb 1"
    by (simp add: distributeInquiry_def findByIdAndUpdate_def exampleDb_def exampleInquiry_def)
  then have c': "snd ?out \<noteq> exampleDb" by auto
  from distributeInquiry_frame [OF h] r n o c' show ?thesis by simp
qed

end
